theory Spec2Isabelle
  imports Main "HOL-Library.Word" "HOL-Library.Sublist" "HOL-Library.AList"
begin

section \<open>Values\<close>

text \<open>
  The migration script \<^verbatim>\<open>scripts/openclaw_migrate.py\<close> moves three kinds of data: rows of
  an SQLite table, lines of JSON session logs and one JSON configuration file. It handles
  them as the Python values that \<^verbatim>\<open>sqlite3\<close> and \<^verbatim>\<open>json.loads\<close> return.

  A Python \<^verbatim>\<open>str\<close> is modelled by \<open>string\<close> (the bytes of its UTF-8 encoding), a Python
  \<^verbatim>\<open>int\<close> by \<open>int\<close>, a Python \<^verbatim>\<open>float\<close> by the 64 bits of its IEEE 754 representation,
  a \<^verbatim>\<open>dict\<close> by the list of its items in insertion order.
\<close>

type_synonym pyfloat = "64 word"

datatype json =
    JNull
  | JBool bool
  | JInt int
  | JFloat pyfloat
  | JStr string
  | JArr "json list"
  | JObj "(string \<times> json) list"

text \<open>
  A column value as \<^verbatim>\<open>sqlite3\<close> hands it over: \<^verbatim>\<open>None\<close>, \<^verbatim>\<open>int\<close>, \<^verbatim>\<open>float\<close> or
  \<^verbatim>\<open>str\<close>. (The \<^verbatim>\<open>chunks\<close> table holds text and numbers; a BLOB value, which comes
  as \<^verbatim>\<open>bytes\<close> and which \<^verbatim>\<open>json.dump\<close> cannot write, is outside the model.)
\<close>

datatype sqlval = SNull | SInt int | SReal pyfloat | SText string

fun json_of_sql :: "sqlval \<Rightarrow> json" where
  "json_of_sql SNull = JNull"
| "json_of_sql (SInt i) = JInt i"
| "json_of_sql (SReal x) = JFloat x"
| "json_of_sql (SText s) = JStr s"

text \<open>Python truth value testing (\<^verbatim>\<open>if x\<close>, \<^verbatim>\<open>not x\<close>): positive and negative zero are false.\<close>

definition float_is_zero :: "pyfloat \<Rightarrow> bool" where
  "float_is_zero x = (x = 0 \<or> x = 0x8000000000000000)"

fun truthy :: "json \<Rightarrow> bool" where
  "truthy JNull = False"
| "truthy (JBool b) = b"
| "truthy (JInt i) = (i \<noteq> 0)"
| "truthy (JFloat x) = (\<not> float_is_zero x)"
| "truthy (JStr s) = (s \<noteq> [])"
| "truthy (JArr xs) = (xs \<noteq> [])"
| "truthy (JObj kvs) = (kvs \<noteq> [])"

text \<open>The exceptions the script can run into while handling its data.\<close>

datatype error = AttributeError | TypeError | JSONDecodeError | DatabaseError

subsection \<open>\<^verbatim>\<open>str()\<close>\<close>

definition digit_char :: "nat \<Rightarrow> char" where
  "digit_char d = char_of (48 + d)"

fun str_nat :: "nat \<Rightarrow> string" where
  "str_nat n = (if n < 10 then [digit_char n] else str_nat (n div 10) @ [digit_char (n mod 10)])"

definition str_int :: "int \<Rightarrow> string" where
  "str_int i = (if i < 0 then CHR ''-'' # str_nat (nat (- i)) else str_nat (nat i))"

text \<open>
  \<^verbatim>\<open>str(x)\<close>, also what an f-string does to \<open>x\<close>. A \<^verbatim>\<open>str\<close> is returned as it is;
  \<^verbatim>\<open>None\<close>, \<^verbatim>\<open>bool\<close> and \<^verbatim>\<open>int\<close> are printed as below; for \<^verbatim>\<open>float\<close>, \<^verbatim>\<open>list\<close> and
  \<^verbatim>\<open>dict\<close>, \<^verbatim>\<open>str\<close> is the built-in \<^verbatim>\<open>repr\<close>, which is a parameter of the model.
\<close>

fun py_str :: "(json \<Rightarrow> string) \<Rightarrow> json \<Rightarrow> string" where
  "py_str repr JNull = ''None''"
| "py_str repr (JBool b) = (if b then ''True'' else ''False'')"
| "py_str repr (JInt i) = str_int i"
| "py_str repr (JStr s) = s"
| "py_str repr v = repr v"

section \<open>\<^verbatim>\<open>json.loads\<close>\<close>

text \<open>
  The passes below take \<^verbatim>\<open>json.loads\<close> as a parameter \<open>loads\<close>, a function from the text
  to the value, \<open>None\<close> when it raises. \<open>json_loads\<close> is that function of the standard
  library written out (its limits on nesting depth and on the digits of an integer
  aside): it serves where a run is evaluated on concrete text.
\<close>

subsection \<open>Numbers\<close>

definition is_digit :: "char \<Rightarrow> bool" where
  "is_digit c = (CHR ''0'' = c \<or> c \<in> set ''123456789'')"

definition digit_val :: "char \<Rightarrow> int" where
  "digit_val c = of_char c - 48"

definition int_of_digits :: "string \<Rightarrow> int" where
  "int_of_digits ds = foldl (\<lambda>n c. 10 * n + digit_val c) 0 ds"

function bitlen :: "int \<Rightarrow> int" where
  "bitlen n = (if n \<le> 0 then 0 else 1 + bitlen (n div 2))"
  by pat_completeness auto
termination
  by (relation "measure nat") auto

definition round_half_even :: "int \<Rightarrow> int \<Rightarrow> int" where
  "round_half_even n d =
     (let q = n div d; r = n mod d in
      if 2 * r < d then q else if d < 2 * r then q + 1 else if even q then q else q + 1)"

definition float_of_decimal :: "bool \<Rightarrow> int \<Rightarrow> int \<Rightarrow> pyfloat" where
  "float_of_decimal neg m e =
     (let sign = (if neg then 0x8000000000000000 else 0 :: int) in
      if m = 0 then of_int sign
      else
        (let p = (if 0 \<le> e then m * 10 ^ nat e else m);
             q = (if 0 \<le> e then 1 else 10 ^ nat (- e));
             k0 = bitlen p - bitlen q;
             k = (if (if 0 \<le> k0 then 2 ^ nat k0 * q \<le> p else q \<le> p * 2 ^ nat (- k0)) then k0 else k0 - 1);
             k' = max k (- 1022);
             s = 52 - k';
             n = (if 0 \<le> s then round_half_even (p * 2 ^ nat s) q
                  else round_half_even p (q * 2 ^ nat (- s)));
             bits = (k' + 1022) * 2 ^ 52 + n
         in of_int (sign + min bits 0x7FF0000000000000)))"

text \<open>The lexeme of a number: \<^verbatim>\<open>(-?(?:0|[1-9][0-9]*))(\.[0-9]+)?([eE][-+]?[0-9]+)?\<close>.\<close>

definition number_of_word :: "string \<Rightarrow> json option" where
  "number_of_word w =
     (let neg = (take 1 w = ''-'');
          w1 = (if neg then drop 1 w else w);
          ip = (if take 1 w1 = ''0'' then ''0'' else takeWhile is_digit w1);
          w2 = drop (length ip) w1;
          has_frac = (take 1 w2 = ''.'');
          fp = (if has_frac then takeWhile is_digit (drop 1 w2) else []);
          w3 = (if has_frac then drop (1 + length fp) w2 else w2);
          has_exp = (take 1 w3 = ''e'' \<or> take 1 w3 = ''E'');
          w4 = (if has_exp then drop 1 w3 else w3);
          eneg = (take 1 w4 = ''-'');
          w5 = (if has_exp \<and> (eneg \<or> take 1 w4 = ''+'') then drop 1 w4 else w4);
          ep = (if has_exp then takeWhile is_digit w5 else []);
          w6 = drop (length ep) w5
      in if ip = [] \<or> (has_frac \<and> fp = []) \<or> (has_exp \<and> ep = []) \<or> w6 \<noteq> [] then None
         else if \<not> has_frac \<and> \<not> has_exp
           then Some (JInt (if neg then - int_of_digits ip else int_of_digits ip))
         else Some (JFloat (float_of_decimal neg (int_of_digits (ip @ fp))
                 ((if eneg then - int_of_digits ep else int_of_digits ep) - int (length fp)))))"

definition value_of_word :: "string \<Rightarrow> json option" where
  "value_of_word w =
     (if w = ''null'' then Some JNull
      else if w = ''true'' then Some (JBool True)
      else if w = ''false'' then Some (JBool False)
      else if w = ''NaN'' then Some (JFloat 0x7FF8000000000000)
      else if w = ''Infinity'' then Some (JFloat 0x7FF0000000000000)
      else if w = ''-Infinity'' then Some (JFloat 0xFFF0000000000000)
      else number_of_word w)"

subsection \<open>Strings\<close>

text \<open>The UTF-8 bytes of a code point (a lone surrogate is written the same way).\<close>

definition utf8 :: "nat \<Rightarrow> string" where
  "utf8 n =
     (if n < 0x80 then [char_of n]
      else if n < 0x800 then [char_of (0xC0 + n div 64), char_of (0x80 + n mod 64)]
      else if n < 0x10000 then
        [char_of (0xE0 + n div 4096), char_of (0x80 + n div 64 mod 64), char_of (0x80 + n mod 64)]
      else
        [char_of (0xF0 + n div 262144), char_of (0x80 + n div 4096 mod 64),
         char_of (0x80 + n div 64 mod 64), char_of (0x80 + n mod 64)])"

definition hex_val :: "char \<Rightarrow> nat option" where
  "hex_val c =
     (if is_digit c then Some (of_char c - 48)
      else if c \<in> set ''abcdef'' then Some (of_char c - 87)
      else if c \<in> set ''ABCDEF'' then Some (of_char c - 55)
      else None)"

text \<open>The characters a backslash may precede, \<^verbatim>\<open>u\<close> apart.\<close>

definition unescape :: "char \<Rightarrow> char option" where
  "unescape c =
     (if c = CHR 0x22 \<or> c = CHR 0x5C \<or> c = CHR ''/'' then Some c
      else if c = CHR ''b'' then Some (CHR 0x08)
      else if c = CHR ''f'' then Some (CHR 0x0C)
      else if c = CHR ''n'' then Some (CHR 0x0A)
      else if c = CHR ''r'' then Some (CHR 0x0D)
      else if c = CHR ''t'' then Some (CHR 0x09)
      else None)"

subsection \<open>Tokens\<close>

datatype token = TValue json | TOpen char | TClose char | TComma | TColon

text \<open>
  The scanner reads one character at a time. Inside a string it keeps the text read so
  far and, right after an escape \<^verbatim>\<open>\uD800\<close> to \<^verbatim>\<open>\uDBFF\<close>, that high surrogate: an escape
  \<^verbatim>\<open>\uDC00\<close> to \<^verbatim>\<open>\uDFFF\<close> that follows at once makes one code point of the two.
\<close>

datatype scan_state =
    Idle
  | InWord string
  | InString string "nat option"
  | Escape string "nat option"
  | Unicode string "nat option" "nat list"

definition flush :: "string \<Rightarrow> nat option \<Rightarrow> string" where
  "flush acc hi = (case hi of None \<Rightarrow> acc | Some h \<Rightarrow> acc @ utf8 h)"

definition is_space :: "char \<Rightarrow> bool" where
  "is_space c = (c = CHR '' '' \<or> c = CHR 0x09 \<or> c = CHR 0x0A \<or> c = CHR 0x0D)"

definition is_word_char :: "char \<Rightarrow> bool" where
  "is_word_char c =
     (is_digit c \<or> c = CHR ''-'' \<or> c = CHR ''+'' \<or> c = CHR ''.''
      \<or> (let n = of_char c :: nat in (65 \<le> n \<and> n \<le> 90) \<or> (97 \<le> n \<and> n \<le> 122)))"

definition scan_idle :: "char \<Rightarrow> (token list \<times> scan_state) option" where
  "scan_idle c =
     (if is_space c then Some ([], Idle)
      else if c = CHR 0x22 then Some ([], InString [] None)
      else if c = CHR ''['' \<or> c = CHR ''{'' then Some ([TOpen c], Idle)
      else if c = CHR '']'' \<or> c = CHR ''}'' then Some ([TClose c], Idle)
      else if c = CHR '','' then Some ([TComma], Idle)
      else if c = CHR '':'' then Some ([TColon], Idle)
      else if is_word_char c then Some ([], InWord [c])
      else None)"

fun scan_char :: "scan_state \<Rightarrow> char \<Rightarrow> (token list \<times> scan_state) option" where
  "scan_char Idle c = scan_idle c"
| "scan_char (InWord w) c =
     (if is_word_char c then Some ([], InWord (w @ [c]))
      else (case value_of_word w of
              None \<Rightarrow> None
            | Some v \<Rightarrow>
               (case scan_idle c of
                  None \<Rightarrow> None
                | Some (ts, st) \<Rightarrow> Some (TValue v # ts, st))))"
| "scan_char (InString acc hi) c =
     (if c = CHR 0x22 then Some ([TValue (JStr (flush acc hi))], Idle)
      else if c = CHR 0x5C then Some ([], Escape acc hi)
      else if (of_char c :: nat) < 32 then None
      else Some ([], InString (flush acc hi @ [c]) None))"
| "scan_char (Escape acc hi) c =
     (if c = CHR ''u'' then Some ([], Unicode acc hi [])
      else (case unescape c of
              None \<Rightarrow> None
            | Some d \<Rightarrow> Some ([], InString (flush acc hi @ [d]) None)))"
| "scan_char (Unicode acc hi ds) c =
     (case hex_val c of
        None \<Rightarrow> None
      | Some d \<Rightarrow>
         (if length ds < 3 then Some ([], Unicode acc hi (ds @ [d]))
          else
            (let u = foldl (\<lambda>n x. 16 * n + x) 0 (ds @ [d]) in
             if 0xDC00 \<le> u \<and> u \<le> 0xDFFF \<and> hi \<noteq> None
               then Some ([], InString (acc @ utf8 (0x10000 + (the hi - 0xD800) * 1024 + (u - 0xDC00))) None)
             else if 0xD800 \<le> u \<and> u \<le> 0xDBFF
               then Some ([], InString (flush acc hi) (Some u))
             else Some ([], InString (flush acc hi @ utf8 u) None))))"

fun scan :: "scan_state \<Rightarrow> string \<Rightarrow> token list option" where
  "scan Idle [] = Some []"
| "scan (InWord w) [] = (case value_of_word w of None \<Rightarrow> None | Some v \<Rightarrow> Some [TValue v])"
| "scan st [] = None"
| "scan st (c # cs) =
     (case scan_char st c of
        None \<Rightarrow> None
      | Some (ts, st') \<Rightarrow> (case scan st' cs of None \<Rightarrow> None | Some ts' \<Rightarrow> Some (ts @ ts')))"

subsection \<open>Values\<close>

text \<open>
  The containers that are open, innermost first: a list with the items read so far, a
  dict with its items, or a dict with its items and the key whose value is being read.
  A key read twice keeps its first place and takes the later value, as in a Python dict.
\<close>

datatype frame = FArr "json list" | FObj "(string \<times> json) list" | FKey "(string \<times> json) list" string

datatype parse_state =
    PValue "frame list"
  | PFirst "frame list"
  | PKey "frame list"
  | PColon "frame list"
  | PAfter "frame list"
  | PDone json

fun complete :: "json \<Rightarrow> frame list \<Rightarrow> parse_state option" where
  "complete v [] = Some (PDone v)"
| "complete v (FArr items # stack) = Some (PAfter (FArr (items @ [v]) # stack))"
| "complete v (FKey items k # stack) = Some (PAfter (FObj (AList.update k v items) # stack))"
| "complete v (FObj items # stack) = None"

fun open_value :: "token \<Rightarrow> frame list \<Rightarrow> parse_state option" where
  "open_value (TValue v) stack = complete v stack"
| "open_value (TOpen c) stack =
     (if c = CHR ''['' then Some (PFirst (FArr [] # stack)) else Some (PFirst (FObj [] # stack)))"
| "open_value t stack = None"

fun open_key :: "token \<Rightarrow> frame list \<Rightarrow> parse_state option" where
  "open_key (TValue (JStr k)) (FObj items # stack) = Some (PColon (FKey items k # stack))"
| "open_key t stack = None"

fun parse_token :: "parse_state \<Rightarrow> token \<Rightarrow> parse_state option" where
  "parse_token (PValue stack) t = open_value t stack"
| "parse_token (PFirst (FArr items # stack)) t =
     (if t = TClose (CHR '']'') then complete (JArr []) stack else open_value t (FArr items # stack))"
| "parse_token (PFirst (FObj items # stack)) t =
     (if t = TClose (CHR ''}'') then complete (JObj []) stack else open_key t (FObj items # stack))"
| "parse_token (PKey stack) t = open_key t stack"
| "parse_token (PColon stack) t = (if t = TColon then Some (PValue stack) else None)"
| "parse_token (PAfter (FArr items # stack)) t =
     (if t = TComma then Some (PValue (FArr items # stack))
      else if t = TClose (CHR '']'') then complete (JArr items) stack
      else None)"
| "parse_token (PAfter (FObj items # stack)) t =
     (if t = TComma then Some (PKey (FObj items # stack))
      else if t = TClose (CHR ''}'') then complete (JObj items) stack
      else None)"
| "parse_token st t = None"

fun parse_tokens :: "parse_state \<Rightarrow> token list \<Rightarrow> json option" where
  "parse_tokens (PDone v) [] = Some v"
| "parse_tokens st [] = None"
| "parse_tokens st (t # ts) =
     (case parse_token st t of None \<Rightarrow> None | Some st' \<Rightarrow> parse_tokens st' ts)"

text \<open>\<^verbatim>\<open>json.loads\<close> on a str; \<open>None\<close> when it raises. A byte order mark at the start is refused.\<close>

definition json_loads :: "string \<Rightarrow> json option" where
  "json_loads s =
     (if take 3 s = [CHR 0xEF, CHR 0xBB, CHR 0xBF] then None
      else (case scan Idle s of None \<Rightarrow> None | Some ts \<Rightarrow> parse_tokens (PValue []) ts))"

section \<open>Effects\<close>

text \<open>
  What the script does to the outside world is recorded as a trace, in the order of the
  calls: lines printed, source files opened, destination files written. A destination
  file is named by its directory under \<^verbatim>\<open>~/.config/nexus/memory\<close> and its file name; its
  content is the value handed to \<^verbatim>\<open>json.dump(..., indent=2)\<close>, whose output is a function
  of that value alone. A file name is the string the script computes, taken as it is.

  The operating system is assumed to cooperate: a source that exists can be opened and
  read as text, a destination file can be written, and printing succeeds. The exceptions
  of the model are those the script runs into while handling the data it has read.

  Of the lines printed, \<open>Banner\<close> stands for the three lines of the heading and
  \<open>Summary\<close> for the lines of the final summary, with the two counts it shows.
\<close>

datatype message =
    Banner
  | Step1 | Step2 | Step3
  | WarnNoDatabase | WarnNoSessions | WarnNoConfig
  | FoundChunks nat
  | FoundSessions nat
  | MigratedChunks nat
  | MigratedMessages nat
  | ExtractedPersonality
  | Summary nat nat

datatype dest_dir = Vector | Events | Graph | Memory

datatype effect =
    Print message
  | Mkdir dest_dir
  | OpenSession string
  | Write dest_dir string json

type_synonym 'a run = "effect list \<times> (error + 'a)"

section \<open>Step 1: code chunks\<close>

text \<open>One row of \<^verbatim>\<open>SELECT id, path, source, start_line, end_line, hash, model, text, embedding, updated_at\<close>.\<close>

record chunk_row =
  chunk_id :: sqlval
  path :: sqlval
  source :: sqlval
  start_line :: sqlval
  end_line :: sqlval
  hash_val :: sqlval
  model :: sqlval
  text_val :: sqlval
  embedding :: sqlval
  updated_at :: sqlval

text \<open>
  The database file: missing, present but not readable as a database with a \<^verbatim>\<open>chunks\<close>
  table (\<^verbatim>\<open>sqlite3\<close> raises), or the rows of the query in the order \<^verbatim>\<open>fetchall\<close> returns them.
\<close>

datatype database = NoDatabase | BadDatabase | Chunks "chunk_row list"

text \<open>
  Lines 73 to 76: \<^verbatim>\<open>json.loads(embedding) if embedding else []\<close> under a bare
  \<^verbatim>\<open>except\<close>. \<open>loads\<close> is \<^verbatim>\<open>json.loads\<close> on a \<^verbatim>\<open>str\<close>, \<open>None\<close> when it raises; on a
  number \<^verbatim>\<open>json.loads\<close> raises \<^verbatim>\<open>TypeError\<close>, which the \<^verbatim>\<open>except\<close> catches as well.
\<close>

fun load_embedding :: "(string \<Rightarrow> json option) \<Rightarrow> sqlval \<Rightarrow> json" where
  "load_embedding loads (SText s) =
     (if s \<noteq> [] then (case loads s of Some v \<Rightarrow> v | None \<Rightarrow> JArr []) else JArr [])"
| "load_embedding loads other = JArr []"

definition chunk_metadata :: "chunk_row \<Rightarrow> json" where
  "chunk_metadata row = JObj
     [(''source_file'', json_of_sql (path row)),
      (''start_line'', json_of_sql (start_line row)),
      (''end_line'', json_of_sql (end_line row)),
      (''hash'', json_of_sql (hash_val row)),
      (''model'', json_of_sql (model row)),
      (''source'', json_of_sql (source row)),
      (''migrated_from'', JStr ''openclaw''),
      (''original_timestamp'', json_of_sql (updated_at row))]"

definition chunk_entry :: "chunk_row \<Rightarrow> json \<Rightarrow> json" where
  "chunk_entry row embedding_list = JObj
     [(''id'', json_of_sql (chunk_id row)),
      (''content'', json_of_sql (text_val row)),
      (''metadata'', chunk_metadata row),
      (''embedding'', embedding_list),
      (''timestamp'', json_of_sql (updated_at row))]"

definition chunk_file :: "(json \<Rightarrow> string) \<Rightarrow> chunk_row \<Rightarrow> string" where
  "chunk_file repr row = py_str repr (json_of_sql (chunk_id row)) @ ''.json''"

text \<open>The body of the loop for one row: \<open>None\<close> is \<^verbatim>\<open>continue\<close>, \<open>Some\<close> the file written.\<close>

definition migrate_row :: "(string \<Rightarrow> json option) \<Rightarrow> (json \<Rightarrow> string) \<Rightarrow> chunk_row \<Rightarrow> effect option" where
  "migrate_row loads repr row =
     (let embedding_list = load_embedding loads (embedding row) in
      if \<not> truthy embedding_list then None
      else Some (Write Vector (chunk_file repr row) (chunk_entry row embedding_list)))"

text \<open>The \<^verbatim>\<open>for row in cursor.fetchall()\<close> loop, with the counter \<open>migrated\<close>.\<close>

fun chunk_loop :: "(string \<Rightarrow> json option) \<Rightarrow> (json \<Rightarrow> string) \<Rightarrow> chunk_row list \<Rightarrow> nat \<Rightarrow> effect list \<times> nat" where
  "chunk_loop loads repr [] migrated = ([], migrated)"
| "chunk_loop loads repr (row # rows) migrated =
     (case migrate_row loads repr row of
        None \<Rightarrow> chunk_loop loads repr rows migrated
      | Some w \<Rightarrow>
          (let (ws, n) = chunk_loop loads repr rows (migrated + 1) in (w # ws, n)))"

definition migrate_code_chunks :: "(string \<Rightarrow> json option) \<Rightarrow> (json \<Rightarrow> string) \<Rightarrow> database \<Rightarrow> nat run" where
  "migrate_code_chunks loads repr db =
     (case db of
        NoDatabase \<Rightarrow> ([Print WarnNoDatabase], Inr 0)
      | BadDatabase \<Rightarrow> ([], Inl DatabaseError)
      | Chunks rows \<Rightarrow>
          (let (ws, migrated) = chunk_loop loads repr rows 0
           in (Print (FoundChunks (length rows)) # ws, Inr migrated)))"

section \<open>Step 2: conversations\<close>

text \<open>\<^verbatim>\<open>k in x\<close>: a key of a dict, a substring of a str, an element of a list; \<^verbatim>\<open>TypeError\<close> otherwise.\<close>

fun py_in :: "string \<Rightarrow> json \<Rightarrow> error + bool" where
  "py_in k (JObj kvs) = Inr (k \<in> set (map fst kvs))"
| "py_in k (JStr s) = Inr (sublist k s)"
| "py_in k (JArr xs) = Inr (JStr k \<in> set xs)"
| "py_in k other = Inl TypeError"

text \<open>
  Lines 141 to 144, the list comprehension: the \<^verbatim>\<open>part.get("text", "")\<close> of every part that is
  a dict with \<^verbatim>\<open>part.get("type") == "text"\<close>.
\<close>

fun text_parts :: "json list \<Rightarrow> json list" where
  "text_parts [] = []"
| "text_parts (JObj part # content_parts) =
     (if map_of part ''type'' = Some (JStr ''text'')
      then (case map_of part ''text'' of Some t \<Rightarrow> t | None \<Rightarrow> JStr []) # text_parts content_parts
      else text_parts content_parts)"
| "text_parts (other # content_parts) = text_parts content_parts"

text \<open>\<^verbatim>\<open>sep.join(items)\<close>: \<^verbatim>\<open>TypeError\<close> unless every item is a str.\<close>

fun str_join :: "string \<Rightarrow> json list \<Rightarrow> error + string" where
  "str_join sep [] = Inr []"
| "str_join sep [JStr s] = Inr s"
| "str_join sep (JStr s # items) =
     (case str_join sep items of Inl e \<Rightarrow> Inl e | Inr t \<Rightarrow> Inr (s @ sep @ t))"
| "str_join sep (other # items) = Inl TypeError"

text \<open>Lines 140 to 146: the text of \<open>content_parts\<close>.\<close>

fun extract_text :: "(json \<Rightarrow> string) \<Rightarrow> json \<Rightarrow> error + string" where
  "extract_text repr (JArr content_parts) = str_join '' '' (text_parts content_parts)"
| "extract_text repr content_parts = Inr (py_str repr content_parts)"

definition event_file :: "string \<Rightarrow> nat \<Rightarrow> string" where
  "event_file session_id idx = ''openclaw_'' @ session_id @ ''_'' @ str_nat idx @ ''.json''"

definition event :: "(string \<times> json) list \<Rightarrow> (string \<times> json) list \<Rightarrow> string \<Rightarrow> string \<Rightarrow> nat \<Rightarrow> json" where
  "event msg inner_msg text_content session_id idx = JObj
     [(''type'', JStr ''conversation''),
      (''role'', (case map_of inner_msg ''role'' of Some r \<Rightarrow> r | None \<Rightarrow> JNull)),
      (''content'', JStr text_content),
      (''timestamp'', (case map_of msg ''timestamp'' of Some t \<Rightarrow> t | None \<Rightarrow> JStr ''unknown'')),
      (''session'', JStr session_id),
      (''message_index'', JInt (int idx)),
      (''migrated_from'', JStr ''openclaw'')]"

text \<open>
  Lines 131 to 160, for the value \<open>msg\<close> that \<^verbatim>\<open>json.loads(line)\<close> returned. \<open>Inr None\<close> is
  \<^verbatim>\<open>continue\<close>, \<open>Inr (Some w)\<close> the event file written, \<open>Inl e\<close> an exception that nothing
  catches: \<^verbatim>\<open>msg.get\<close> and \<^verbatim>\<open>inner_msg.get\<close> exist on a dict only.
\<close>

fun handle_message :: "(json \<Rightarrow> string) \<Rightarrow> string \<Rightarrow> nat \<Rightarrow> json \<Rightarrow> error + effect option" where
  "handle_message repr session_id idx (JObj msg) =
     (if map_of msg ''type'' = Some (JStr ''message'') then
        (case map_of msg ''message'' of
           None \<Rightarrow> Inr None
         | Some inner_msg \<Rightarrow>
            (case py_in ''role'' inner_msg of
               Inl e \<Rightarrow> Inl e
             | Inr has_role \<Rightarrow>
                if has_role then
                  (case py_in ''content'' inner_msg of
                     Inl e \<Rightarrow> Inl e
                   | Inr has_content \<Rightarrow>
                      if has_content then
                        (case inner_msg of
                           JObj inner \<Rightarrow>
                             (case extract_text repr
                                     (case map_of inner ''content'' of Some c \<Rightarrow> c | None \<Rightarrow> JArr []) of
                                Inl e \<Rightarrow> Inl e
                              | Inr text_content \<Rightarrow>
                                  Inr (Some (Write Events (event_file session_id idx)
                                               (event msg inner text_content session_id idx))))
                         | _ \<Rightarrow> Inl AttributeError)
                      else Inr None)
                else Inr None))
      else Inr None)"
| "handle_message repr session_id idx other = Inl AttributeError"

text \<open>Lines 125 to 128, then the rest of the loop body.\<close>

definition process_line :: "(string \<Rightarrow> json option) \<Rightarrow> (json \<Rightarrow> string) \<Rightarrow> string \<Rightarrow> nat \<Rightarrow> string \<Rightarrow> error + effect option" where
  "process_line loads repr session_id idx line =
     (case loads line of
        None \<Rightarrow> Inr None
      | Some msg \<Rightarrow> handle_message repr session_id idx msg)"

text \<open>
  \<^verbatim>\<open>for idx, line in enumerate(f)\<close>, from index \<open>idx\<close> on, with the counter
  \<open>total_messages\<close>. An exception ends the loop; the files written before it stay.
\<close>

fun session_loop :: "(string \<Rightarrow> json option) \<Rightarrow> (json \<Rightarrow> string) \<Rightarrow> string \<Rightarrow> nat \<Rightarrow> string list \<Rightarrow> nat \<Rightarrow> nat run" where
  "session_loop loads repr session_id idx [] total_messages = ([], Inr total_messages)"
| "session_loop loads repr session_id idx (line # lines) total_messages =
     (case process_line loads repr session_id idx line of
        Inl e \<Rightarrow> ([], Inl e)
      | Inr None \<Rightarrow> session_loop loads repr session_id (idx + 1) lines total_messages
      | Inr (Some w) \<Rightarrow>
          (let (ws, r) = session_loop loads repr session_id (idx + 1) lines (total_messages + 1)
           in (w # ws, r)))"

text \<open>
  A file of the sessions directory: its name and its lines, as iterating over the open
  file yields them. \<^verbatim>\<open>Path.stem\<close> is the name up to its last dot, or the whole name when
  that dot is its first or its last character or there is none.
\<close>

type_synonym session_file = "string \<times> string list"

definition stem :: "string \<Rightarrow> string" where
  "stem name =
     (let after = length (takeWhile (\<lambda>c. c \<noteq> CHR ''.'') (rev name)) in
      if after = length name then name
      else (let i = length name - after - 1 in
            if 0 < i \<and> i < length name - 1 then take i name else name))"

text \<open>\<^verbatim>\<open>glob("*.jsonl")\<close>: the entries whose name ends with \<^verbatim>\<open>.jsonl\<close>, in directory order.\<close>

definition glob_jsonl :: "session_file list \<Rightarrow> session_file list" where
  "glob_jsonl entries = filter (\<lambda>f. suffix ''.jsonl'' (fst f)) entries"

text \<open>Lines 113 to 116.\<close>

definition active_sessions :: "session_file list \<Rightarrow> session_file list" where
  "active_sessions entries = filter (\<lambda>f. \<not> sublist ''.deleted.'' (fst f)) (glob_jsonl entries)"

text \<open>\<^verbatim>\<open>for session_file in sessions\<close>.\<close>

fun sessions_loop :: "(string \<Rightarrow> json option) \<Rightarrow> (json \<Rightarrow> string) \<Rightarrow> session_file list \<Rightarrow> nat \<Rightarrow> nat run" where
  "sessions_loop loads repr [] total_messages = ([], Inr total_messages)"
| "sessions_loop loads repr (session_file # sessions) total_messages =
     (case session_loop loads repr (stem (fst session_file)) 0 (snd session_file) total_messages of
        (ws, Inl e) \<Rightarrow> (OpenSession (fst session_file) # ws, Inl e)
      | (ws, Inr total') \<Rightarrow>
          (let (ws', r) = sessions_loop loads repr sessions total'
           in (OpenSession (fst session_file) # ws @ ws', r)))"

definition migrate_conversations :: "(string \<Rightarrow> json option) \<Rightarrow> (json \<Rightarrow> string) \<Rightarrow> session_file list option \<Rightarrow> nat run" where
  "migrate_conversations loads repr sessions_path =
     (case sessions_path of
        None \<Rightarrow> ([Print WarnNoSessions], Inr 0)
      | Some entries \<Rightarrow>
          (let sessions = active_sessions entries;
               (ws, r) = sessions_loop loads repr sessions 0
           in (Print (FoundSessions (length sessions)) # ws, r)))"

section \<open>Step 3: personality\<close>

text \<open>
  \<open>now\<close> is \<^verbatim>\<open>datetime.utcnow().isoformat()\<close> at the moment of the call. \<^verbatim>\<open>json.load\<close> is
  called outside any \<^verbatim>\<open>try\<close>: when it raises, nothing has been written yet.
\<close>

definition personality :: "string \<Rightarrow> json \<Rightarrow> json" where
  "personality now config = JObj
     [(''source'', JStr ''openclaw''),
      (''migrated_at'', JStr (now @ ''Z'')),
      (''config'', config),
      (''notes'', JStr ''Migrated from OpenClaw. Review and integrate into Nexus system prompts.'')]"

definition extract_personality :: "(string \<Rightarrow> json option) \<Rightarrow> string \<Rightarrow> string option \<Rightarrow> unit run" where
  "extract_personality loads now config_path =
     (case config_path of
        None \<Rightarrow> ([Print WarnNoConfig], Inr ())
      | Some content \<Rightarrow>
          (case loads content of
             None \<Rightarrow> ([], Inl JSONDecodeError)
           | Some config \<Rightarrow>
               ([Write Memory ''openclaw_personality.json'' (personality now config)], Inr ())))"

section \<open>The whole run\<close>

text \<open>What \<^verbatim>\<open>~/.openclaw\<close> holds when the script starts.\<close>

record sources =
  db_path :: database
  sessions_dir :: "session_file list option"
  config_file :: "string option"

text \<open>Sequencing: the effects of both in order; an exception skips what follows.\<close>

definition and_then :: "'a run \<Rightarrow> ('a \<Rightarrow> 'b run) \<Rightarrow> 'b run" where
  "and_then r k =
     (case snd r of
        Inl e \<Rightarrow> (fst r, Inl e)
      | Inr x \<Rightarrow> (fst r @ fst (k x), snd (k x)))"

definition prints :: "message list \<Rightarrow> unit run" where
  "prints ms = (map Print ms, Inr ())"

definition main :: "(string \<Rightarrow> json option) \<Rightarrow> (json \<Rightarrow> string) \<Rightarrow> string \<Rightarrow> sources \<Rightarrow> unit run" where
  "main loads repr now src =
     and_then (prints [Banner]) (\<lambda>_.
     and_then ([Mkdir Vector, Mkdir Events, Mkdir Graph], Inr ()) (\<lambda>_.
     and_then (prints [Step1]) (\<lambda>_.
     and_then (migrate_code_chunks loads repr (db_path src)) (\<lambda>migrated_chunks.
     and_then (prints [MigratedChunks migrated_chunks, Step2]) (\<lambda>_.
     and_then (migrate_conversations loads repr (sessions_dir src)) (\<lambda>migrated_messages.
     and_then (prints [MigratedMessages migrated_messages, Step3]) (\<lambda>_.
     and_then (extract_personality loads now (config_file src)) (\<lambda>_.
     prints [ExtractedPersonality, Summary migrated_chunks migrated_messages]))))))))"

text \<open>The exit status of the process: 0 when \<^verbatim>\<open>main\<close> returns, 1 after an uncaught exception.\<close>

definition exit_status :: "'a run \<Rightarrow> nat" where
  "exit_status r = (case snd r of Inl e \<Rightarrow> 1 | Inr x \<Rightarrow> 0)"

section \<open>Reading a trace\<close>

text \<open>The session files a run opened, in order.\<close>

fun opened :: "effect list \<Rightarrow> string list" where
  "opened [] = []"
| "opened (OpenSession name # es) = name # opened es"
| "opened (e # es) = opened es"

text \<open>
  The destination tree: the content of each file, by directory and name. A write creates
  the file or replaces its content; nothing else changes the tree.
\<close>

type_synonym filesystem = "dest_dir \<times> string \<Rightarrow> json option"

fun apply_effect :: "effect \<Rightarrow> filesystem \<Rightarrow> filesystem" where
  "apply_effect (Write d name v) fs = fs((d, name) \<mapsto> v)"
| "apply_effect e fs = fs"

definition apply_effects :: "effect list \<Rightarrow> filesystem \<Rightarrow> filesystem" where
  "apply_effects es fs = fold apply_effect es fs"

text \<open>The files a trace writes into one directory, in order: name and content.\<close>

fun writes_to :: "dest_dir \<Rightarrow> effect list \<Rightarrow> (string \<times> json) list" where
  "writes_to d [] = []"
| "writes_to d (Write d' name v # es) =
     (if d' = d then (name, v) # writes_to d es else writes_to d es)"
| "writes_to d (e # es) = writes_to d es"

text \<open>A field of a JSON object, and the object without a field.\<close>

fun field :: "string \<Rightarrow> json \<Rightarrow> json option" where
  "field k (JObj kvs) = map_of kvs k"
| "field k v = None"

fun remove_field :: "string \<Rightarrow> json \<Rightarrow> json" where
  "remove_field k (JObj kvs) = JObj (filter (\<lambda>kv. fst kv \<noteq> k) kvs)"
| "remove_field k v = v"







text \<open>A run that never prints a float, a list or a dict can be evaluated with this for \<open>repr\<close>.\<close>

definition no_repr :: "json \<Rightarrow> string" where
  "no_repr v = []"

section \<open>Properties\<close>

subsection \<open>Sequencing\<close>

lemma exit_status_and_then:
  "exit_status (and_then r k) = (case snd r of Inl e \<Rightarrow> 1 | Inr x \<Rightarrow> exit_status (k x))"
  by (simp add: and_then_def exit_status_def split: sum.splits)

subsection \<open>Missing sources\<close>

text \<open>
  C6. When the database, the sessions directory or the configuration file is missing, its
  pass prints its warning, writes nothing and returns (the count 0 for the first two)
  instead of raising. The process exits with status 0 exactly when each of the three
  passes returns, so a missing source never makes it fail; with all three missing the run
  prints the three warnings and the summary, writes no file and exits with status 0.
\<close>

theorem missing_sources_are_skipped:
  "migrate_code_chunks loads repr NoDatabase = ([Print WarnNoDatabase], Inr 0)
   \<and> migrate_conversations loads repr None = ([Print WarnNoSessions], Inr 0)
   \<and> extract_personality loads now None = ([Print WarnNoConfig], Inr ())
   \<and> exit_status (main loads repr now src) =
       max (exit_status (migrate_code_chunks loads repr (db_path src)))
         (max (exit_status (migrate_conversations loads repr (sessions_dir src)))
              (exit_status (extract_personality loads now (config_file src))))
   \<and> main loads repr now \<lparr>db_path = NoDatabase, sessions_dir = None, config_file = None\<rparr> =
       ([Print Banner, Mkdir Vector, Mkdir Events, Mkdir Graph, Print Step1,
         Print WarnNoDatabase, Print (MigratedChunks 0), Print Step2,
         Print WarnNoSessions, Print (MigratedMessages 0), Print Step3,
         Print WarnNoConfig, Print ExtractedPersonality, Print (Summary 0 0)], Inr ())
   \<and> exit_status (main loads repr now \<lparr>db_path = NoDatabase, sessions_dir = None, config_file = None\<rparr>) = 0"
proof -
  have a: "migrate_code_chunks loads repr NoDatabase = ([Print WarnNoDatabase], Inr 0)"
    by (simp add: migrate_code_chunks_def)
  have b: "migrate_conversations loads repr None = ([Print WarnNoSessions], Inr 0)"
    by (simp add: migrate_conversations_def)
  have c: "extract_personality loads now None = ([Print WarnNoConfig], Inr ())"
    by (simp add: extract_personality_def)
  have d: "exit_status (main loads repr now src) =
       max (exit_status (migrate_code_chunks loads repr (db_path src)))
         (max (exit_status (migrate_conversations loads repr (sessions_dir src)))
              (exit_status (extract_personality loads now (config_file src))))"
    unfolding main_def exit_status_and_then
    by (auto simp: exit_status_def prints_def split: sum.splits)
  have e: "main loads repr now \<lparr>db_path = NoDatabase, sessions_dir = None, config_file = None\<rparr> =
       ([Print Banner, Mkdir Vector, Mkdir Events, Mkdir Graph, Print Step1,
         Print WarnNoDatabase, Print (MigratedChunks 0), Print Step2,
         Print WarnNoSessions, Print (MigratedMessages 0), Print Step3,
         Print WarnNoConfig, Print ExtractedPersonality, Print (Summary 0 0)], Inr ())"
    by (simp add: main_def a b c and_then_def prints_def)
  have f: "exit_status (main loads repr now \<lparr>db_path = NoDatabase, sessions_dir = None, config_file = None\<rparr>) = 0"
    by (simp add: e exit_status_def)
  from a b c d e f show ?thesis by blast
qed

subsection \<open>One line\<close>

lemma handle_message_SomeD:
  assumes "handle_message repr session_id idx v = Inr (Some w)"
  shows "\<exists>msg inner c text_content.
           v = JObj msg
         \<and> map_of msg ''type'' = Some (JStr ''message'')
         \<and> map_of msg ''message'' = Some (JObj inner)
         \<and> ''role'' \<in> fst ` set inner
         \<and> map_of inner ''content'' = Some c
         \<and> extract_text repr c = Inr text_content
         \<and> w = Write Events (event_file session_id idx) (event msg inner text_content session_id idx)"
proof (cases v)
  case (JObj msg)
  from assms JObj have ty: "map_of msg ''type'' = Some (JStr ''message'')"
    by (auto split: if_splits)
  from assms JObj ty obtain inner_msg where im: "map_of msg ''message'' = Some inner_msg"
    by (auto split: option.splits)
  from assms JObj ty im have r: "py_in ''role'' inner_msg = Inr True"
    by (auto split: sum.splits if_splits)
  from assms JObj ty im r have c: "py_in ''content'' inner_msg = Inr True"
    by (auto split: sum.splits if_splits)
  from assms JObj ty im r c obtain inner where inner: "inner_msg = JObj inner"
    by (cases inner_msg) auto
  from r inner have role: "''role'' \<in> fst ` set inner" by auto
  from c inner have "''content'' \<in> fst ` set inner" by auto
  then have "map_of inner ''content'' \<noteq> None"
    by (simp add: map_of_eq_None_iff)
  then obtain cv where cv: "map_of inner ''content'' = Some cv"
    by blast
  from assms JObj ty im r c inner cv obtain text_content where
    t: "extract_text repr cv = Inr text_content"
    and w: "w = Write Events (event_file session_id idx) (event msg inner text_content session_id idx)"
    by (auto split: sum.splits)
  from JObj ty im inner role cv t w show ?thesis by blast
qed (use assms in auto)

lemma process_line_SomeD:
  assumes "process_line loads repr session_id idx line = Inr (Some w)"
  shows "\<exists>msg inner c text_content.
           loads line = Some (JObj msg)
         \<and> map_of msg ''type'' = Some (JStr ''message'')
         \<and> map_of msg ''message'' = Some (JObj inner)
         \<and> ''role'' \<in> fst ` set inner
         \<and> map_of inner ''content'' = Some c
         \<and> extract_text repr c = Inr text_content
         \<and> w = Write Events (event_file session_id idx) (event msg inner text_content session_id idx)"
proof -
  from assms obtain v where v: "loads line = Some v"
    and h: "handle_message repr session_id idx v = Inr (Some w)"
    by (auto simp: process_line_def split: option.splits)
  from handle_message_SomeD[OF h] v show ?thesis by auto
qed

lemma field_event_timestamp:
  "field ''timestamp'' (event msg inner text_content session_id idx) =
     Some (case map_of msg ''timestamp'' of Some t \<Rightarrow> t | None \<Rightarrow> JStr ''unknown'')"
  by (simp add: event_def)

lemma field_event_message_index:
  "field ''message_index'' (event msg inner text_content session_id idx) = Some (JInt (int idx))"
  by (simp add: event_def)

subsection \<open>The timestamp of an event\<close>

text \<open>
  C10. The timestamp of an emitted event is read from the top-level object of the log
  line, never from the inner message object: it is the value of the top-level
  \<^verbatim>\<open>timestamp\<close> key, and the string \<^verbatim>\<open>unknown\<close> when the top-level object has no such key,
  whatever the inner object holds.
\<close>

theorem timestamp_is_top_level:
  assumes "process_line loads repr session_id idx line = Inr (Some w)"
  shows "\<exists>msg ev. loads line = Some (JObj msg)
           \<and> w = Write Events (event_file session_id idx) ev
           \<and> field ''timestamp'' ev =
               Some (case map_of msg ''timestamp'' of Some t \<Rightarrow> t | None \<Rightarrow> JStr ''unknown'')
           \<and> (map_of msg ''timestamp'' = None \<longrightarrow> field ''timestamp'' ev = Some (JStr ''unknown''))"
proof -
  from process_line_SomeD[OF assms] obtain msg inner c text_content where
    l: "loads line = Some (JObj msg)"
    and w: "w = Write Events (event_file session_id idx) (event msg inner text_content session_id idx)"
    by blast
  let ?ev = "event msg inner text_content session_id idx"
  have ts: "field ''timestamp'' ?ev =
          Some (case map_of msg ''timestamp'' of Some t \<Rightarrow> t | None \<Rightarrow> JStr ''unknown'')"
    by (rule field_event_timestamp)
  then have unknown: "map_of msg ''timestamp'' = None \<longrightarrow> field ''timestamp'' ?ev = Some (JStr ''unknown'')"
    by simp
  show ?thesis
    by (rule exI[of _ msg], rule exI[of _ ?ev]) (use l w ts in simp)
qed

text \<open>A line whose inner message carries a timestamp and whose top level has none.\<close>

theorem timestamp_is_top_level_witness:
  \<open>process_line json_loads no_repr ''s1'' 4
      ''{"type":"message","message":{"role":"user","content":"hi","timestamp":"2026-01-02T03:04:05Z"}}'' =
     Inr (Some (Write Events ''openclaw_s1_4.json''
       (JObj [(''type'', JStr ''conversation''), (''role'', JStr ''user''),
              (''content'', JStr ''hi''), (''timestamp'', JStr ''unknown''),
              (''session'', JStr ''s1''), (''message_index'', JInt 4),
              (''migrated_from'', JStr ''openclaw'')])))
   \<and> (\<exists>msg ev.
         json_loads ''{"type":"message","message":{"role":"user","content":"hi","timestamp":"2026-01-02T03:04:05Z"}}'' =
           Some (JObj msg)
       \<and> map_of msg ''timestamp'' = None
       \<and> field ''timestamp'' ev = Some (JStr ''unknown''))\<close>
proof -
  let ?line = \<open>''{"type":"message","message":{"role":"user","content":"hi","timestamp":"2026-01-02T03:04:05Z"}}''\<close>
  let ?w = "Write Events ''openclaw_s1_4.json''
       (JObj [(''type'', JStr ''conversation''), (''role'', JStr ''user''),
              (''content'', JStr ''hi''), (''timestamp'', JStr ''unknown''),
              (''session'', JStr ''s1''), (''message_index'', JInt 4),
              (''migrated_from'', JStr ''openclaw'')])"
  have run: "process_line json_loads no_repr ''s1'' 4 ?line = Inr (Some ?w)"
    by code_simp
  have parsed: "json_loads ?line = Some (JObj [(''type'', JStr ''message''),
       (''message'', JObj [(''role'', JStr ''user''), (''content'', JStr ''hi''),
                           (''timestamp'', JStr ''2026-01-02T03:04:05Z'')])])"
    by code_simp
  from timestamp_is_top_level[OF run] obtain msg ev where
    m: "json_loads ?line = Some (JObj msg)"
    and u: "map_of msg ''timestamp'' = None \<longrightarrow> field ''timestamp'' ev = Some (JStr ''unknown'')"
    by (elim exE conjE)
  from m parsed have none: "map_of msg ''timestamp'' = None" by auto
  with u have "field ''timestamp'' ev = Some (JStr ''unknown'')" by simp
  with run m none show ?thesis by blast
qed

subsection \<open>A message that is a string\<close>

text \<open>
  C9. There is a well-formed log line, a JSON object of type \<^verbatim>\<open>message\<close> whose
  \<^verbatim>\<open>message\<close> is the string \<^verbatim>\<open>role content\<close>, that passes the key-presence filter (on a
  string, \<^verbatim>\<open>in\<close> tests for a substring) and then raises \<^verbatim>\<open>AttributeError\<close> at
  \<^verbatim>\<open>inner_msg.get\<close>. Nothing catches it: the run ends there with a failure status, the
  lines after it are never read.
\<close>

theorem string_message_aborts_run:
  \<open>json_loads ''{"type":"message","message":"role content"}'' =
     Some (JObj [(''type'', JStr ''message''), (''message'', JStr ''role content'')])
   \<and> py_in ''role'' (JStr ''role content'') = Inr True
   \<and> py_in ''content'' (JStr ''role content'') = Inr True
   \<and> process_line json_loads repr session_id idx ''{"type":"message","message":"role content"}'' =
       Inl AttributeError
   \<and> main json_loads repr now
        \<lparr>db_path = NoDatabase,
         sessions_dir = Some [(''s1.jsonl'',
           [''{"type":"message","message":{"role":"user","content":"hi"}}'',
            ''{"type":"message","message":"role content"}'',
            ''{"type":"message","message":{"role":"user","content":"bye"}}''])],
         config_file = None\<rparr> =
       ([Print Banner, Mkdir Vector, Mkdir Events, Mkdir Graph, Print Step1,
         Print WarnNoDatabase, Print (MigratedChunks 0), Print Step2,
         Print (FoundSessions 1), OpenSession ''s1.jsonl'',
         Write Events ''openclaw_s1_0.json''
           (JObj [(''type'', JStr ''conversation''), (''role'', JStr ''user''),
                  (''content'', JStr ''hi''), (''timestamp'', JStr ''unknown''),
                  (''session'', JStr ''s1''), (''message_index'', JInt 0),
                  (''migrated_from'', JStr ''openclaw'')])],
        Inl AttributeError)
   \<and> exit_status (main json_loads repr now
        \<lparr>db_path = NoDatabase,
         sessions_dir = Some [(''s1.jsonl'',
           [''{"type":"message","message":{"role":"user","content":"hi"}}'',
            ''{"type":"message","message":"role content"}'',
            ''{"type":"message","message":{"role":"user","content":"bye"}}''])],
         config_file = None\<rparr>) = 1\<close>
  by code_simp

subsection \<open>One session file\<close>

lemma session_loop_emitted:
  assumes "w \<in> set (fst (session_loop loads repr session_id idx lines total_messages))"
  shows "\<exists>i < length lines. process_line loads repr session_id (idx + i) (lines ! i) = Inr (Some w)"
  using assms
proof (induction lines arbitrary: idx total_messages)
  case Nil
  then show ?case by simp
next
  case (Cons line lines)
  show ?case
  proof (cases "process_line loads repr session_id idx line")
    case (Inl e)
    with Cons.prems show ?thesis by simp
  next
    case (Inr out)
    show ?thesis
    proof (cases out)
      case None
      with Inr Cons.prems
      have "w \<in> set (fst (session_loop loads repr session_id (idx + 1) lines total_messages))"
        by simp
      from Cons.IH[OF this] obtain i where "i < length lines"
        and "process_line loads repr session_id (idx + 1 + i) (lines ! i) = Inr (Some w)"
        by blast
      then have "Suc i < length (line # lines)
          \<and> process_line loads repr session_id (idx + Suc i) ((line # lines) ! Suc i) = Inr (Some w)"
        by simp
      then show ?thesis by blast
    next
      case (Some w')
      with Inr Cons.prems
      have "w = w' \<or> w \<in> set (fst (session_loop loads repr session_id (idx + 1) lines (total_messages + 1)))"
        by (auto split: prod.splits)
      then show ?thesis
      proof
        assume "w = w'"
        with Inr Some have "0 < length (line # lines)
          \<and> process_line loads repr session_id (idx + 0) ((line # lines) ! 0) = Inr (Some w)"
          by simp
        then show ?thesis by blast
      next
        assume "w \<in> set (fst (session_loop loads repr session_id (idx + 1) lines (total_messages + 1)))"
        from Cons.IH[OF this] obtain i where "i < length lines"
          and "process_line loads repr session_id (idx + 1 + i) (lines ! i) = Inr (Some w)"
          by blast
        then have "Suc i < length (line # lines)
          \<and> process_line loads repr session_id (idx + Suc i) ((line # lines) ! Suc i) = Inr (Some w)"
          by simp
        then show ?thesis by blast
      qed
    qed
  qed
qed

lemma opened_session_loop:
  "opened (fst (session_loop loads repr session_id idx lines total_messages)) = []"
proof (induction lines arbitrary: idx total_messages)
  case Nil
  then show ?case by simp
next
  case (Cons line lines)
  show ?case
  proof (cases "process_line loads repr session_id idx line")
    case (Inl e)
    then show ?thesis by simp
  next
    case (Inr out)
    show ?thesis
    proof (cases out)
      case None
      with Inr Cons.IH show ?thesis by simp
    next
      case (Some w)
      from process_line_SomeD[OF Inr[unfolded Some]] obtain f ev where "w = Write Events f ev"
        by blast
      with Inr Some Cons.IH[of "idx + 1" "total_messages + 1"] show ?thesis
        by (simp add: case_prod_beta)
    qed
  qed
qed

subsection \<open>The sessions directory\<close>

lemma opened_append: "opened (es @ es') = opened es @ opened es'"
  by (induction es rule: opened.induct) simp_all

lemma sessions_loop_opened:
  "prefix (opened (fst (sessions_loop loads repr sessions total_messages))) (map fst sessions)
   \<and> ((\<exists>n. snd (sessions_loop loads repr sessions total_messages) = Inr n) \<longrightarrow>
        opened (fst (sessions_loop loads repr sessions total_messages)) = map fst sessions)"
proof (induction sessions arbitrary: total_messages)
  case Nil
  then show ?case by simp
next
  case (Cons session_file sessions)
  obtain ws r where sl: "session_loop loads repr (stem (fst session_file)) 0 (snd session_file) total_messages = (ws, r)"
    by (cases "session_loop loads repr (stem (fst session_file)) 0 (snd session_file) total_messages")
  have ows: "opened ws = []"
    using opened_session_loop[of loads repr "stem (fst session_file)" 0 "snd session_file" total_messages] sl
    by simp
  show ?case
  proof (cases r)
    case (Inl e)
    with sl ows show ?thesis by simp
  next
    case (Inr total')
    obtain ws' r' where rest: "sessions_loop loads repr sessions total' = (ws', r')"
      by (cases "sessions_loop loads repr sessions total'")
    with Cons.IH[of total'] have ih: "prefix (opened ws') (map fst sessions)"
      and ih2: "(\<exists>n. r' = Inr n) \<longrightarrow> opened ws' = map fst sessions"
      by simp_all
    from sl Inr rest ows ih ih2 show ?thesis
      by (simp add: opened_append)
  qed
qed

lemma sessions_loop_emitted:
  assumes "Write d f ev \<in> set (fst (sessions_loop loads repr sessions total_messages))"
  shows "\<exists>session_file \<in> set sessions. \<exists>total.
           Write d f ev \<in> set (fst (session_loop loads repr (stem (fst session_file)) 0 (snd session_file) total))"
  using assms
proof (induction sessions arbitrary: total_messages)
  case Nil
  then show ?case by simp
next
  case (Cons session_file sessions)
  obtain ws r where sl: "session_loop loads repr (stem (fst session_file)) 0 (snd session_file) total_messages = (ws, r)"
    by (cases "session_loop loads repr (stem (fst session_file)) 0 (snd session_file) total_messages")
  show ?case
  proof (cases "Write d f ev \<in> set ws")
    case True
    with sl have "Write d f ev \<in> set (fst (session_loop loads repr (stem (fst session_file)) 0 (snd session_file) total_messages))"
      by simp
    then show ?thesis by auto
  next
    case False
    show ?thesis
    proof (cases r)
      case (Inl e)
      with sl False Cons.prems show ?thesis by simp
    next
      case (Inr total')
      with sl False Cons.prems have "Write d f ev \<in> set (fst (sessions_loop loads repr sessions total'))"
        by (auto split: prod.splits)
      from Cons.IH[OF this] show ?thesis by auto
    qed
  qed
qed

lemma active_sessions_filter:
  "active_sessions entries =
     filter (\<lambda>f. suffix ''.jsonl'' (fst f) \<and> \<not> sublist ''.deleted.'' (fst f)) entries"
  by (simp add: active_sessions_def glob_jsonl_def conj_commute)

lemma migrate_conversations_Some:
  "migrate_conversations loads repr (Some entries) =
     (Print (FoundSessions (length (active_sessions entries)))
        # fst (sessions_loop loads repr (active_sessions entries) 0),
      snd (sessions_loop loads repr (active_sessions entries) 0))"
  by (simp add: migrate_conversations_def Let_def case_prod_beta)

subsection \<open>The index of an event\<close>

text \<open>
  C2. Every event file the conversation pass writes comes from one line of one active
  session file: the line at position \<open>i\<close> among all \<open>N\<close> lines of that file, malformed
  and non-message lines counted, with \<open>i < N\<close>. That \<open>i\<close> is the \<^verbatim>\<open>message_index\<close> of the
  event and the number in its file name. The line parses to a JSON object whose
  \<^verbatim>\<open>type\<close> is \<^verbatim>\<open>message\<close> and whose \<^verbatim>\<open>message\<close> is an object with the keys \<^verbatim>\<open>role\<close> and
  \<^verbatim>\<open>content\<close>.
\<close>

theorem message_index_is_line_position:
  assumes "Write d f ev \<in> set (fst (migrate_conversations loads repr (Some entries)))"
  shows "\<exists>name lines i msg inner.
           (name, lines) \<in> set (active_sessions entries)
         \<and> i < length lines
         \<and> process_line loads repr (stem name) i (lines ! i) = Inr (Some (Write d f ev))
         \<and> d = Events
         \<and> f = ''openclaw_'' @ stem name @ ''_'' @ str_nat i @ ''.json''
         \<and> field ''message_index'' ev = Some (JInt (int i))
         \<and> loads (lines ! i) = Some (JObj msg)
         \<and> map_of msg ''type'' = Some (JStr ''message'')
         \<and> map_of msg ''message'' = Some (JObj inner)
         \<and> ''role'' \<in> fst ` set inner
         \<and> ''content'' \<in> fst ` set inner"
proof -
  from assms have "Write d f ev \<in> set (fst (sessions_loop loads repr (active_sessions entries) 0))"
    by (simp add: migrate_conversations_Some)
  from sessions_loop_emitted[OF this] obtain session_file total where
    sf: "session_file \<in> set (active_sessions entries)"
    and w: "Write d f ev \<in> set (fst (session_loop loads repr (stem (fst session_file)) 0 (snd session_file) total))"
    by blast
  obtain name lines where nl: "session_file = (name, lines)"
    by (cases session_file)
  from session_loop_emitted[OF w] nl obtain i where i: "i < length lines"
    and p: "process_line loads repr (stem name) i (lines ! i) = Inr (Some (Write d f ev))"
    by auto
  from process_line_SomeD[OF p] obtain msg inner c text_content where
    l: "loads (lines ! i) = Some (JObj msg)"
    and ty: "map_of msg ''type'' = Some (JStr ''message'')"
    and im: "map_of msg ''message'' = Some (JObj inner)"
    and role: "''role'' \<in> fst ` set inner"
    and c: "map_of inner ''content'' = Some c"
    and weq: "Write d f ev = Write Events (event_file (stem name) i) (event msg inner text_content (stem name) i)"
    by blast
  from c have "(''content'', c) \<in> set inner"
    by (rule map_of_SomeD)
  then have content: "''content'' \<in> fst ` set inner"
    by force
  from weq have d: "d = Events" and f: "f = ''openclaw_'' @ stem name @ ''_'' @ str_nat i @ ''.json''"
    and ev: "ev = event msg inner text_content (stem name) i"
    by (simp_all add: event_file_def)
  from ev have idx: "field ''message_index'' ev = Some (JInt (int i))"
    by (simp add: field_event_message_index)
  from sf nl i p d f idx l ty im role content show ?thesis by blast
qed

text \<open>
  A file of three lines, the first not JSON, the second not a message (both end with a
  newline, as the lines of a file do): the event of the third line has index 2, not 0.
\<close>

theorem message_index_is_line_position_witness:
  \<open>migrate_conversations json_loads no_repr
      (Some [(''s1.jsonl'',
         [''not json'' @ [CHR 0x0A],
          ''{"type":"ping"}'' @ [CHR 0x0A],
          ''{"type":"message","message":{"role":"user","content":"hi"}}''])]) =
     ([Print (FoundSessions 1), OpenSession ''s1.jsonl'',
       Write Events ''openclaw_s1_2.json''
         (JObj [(''type'', JStr ''conversation''), (''role'', JStr ''user''),
                (''content'', JStr ''hi''), (''timestamp'', JStr ''unknown''),
                (''session'', JStr ''s1''), (''message_index'', JInt 2),
                (''migrated_from'', JStr ''openclaw'')])],
      Inr 1)
   \<and> (\<exists>name lines i.
         (name, lines) \<in> set (active_sessions [(''s1.jsonl'',
            [''not json'' @ [CHR 0x0A],
             ''{"type":"ping"}'' @ [CHR 0x0A],
             ''{"type":"message","message":{"role":"user","content":"hi"}}''])])
       \<and> i < length lines
       \<and> ''openclaw_s1_2.json'' = ''openclaw_'' @ stem name @ ''_'' @ str_nat i @ ''.json''
       \<and> json_loads (lines ! i) \<noteq> None)\<close>
proof -
  let ?entries = \<open>[(''s1.jsonl'',
         [''not json'' @ [CHR 0x0A],
          ''{"type":"ping"}'' @ [CHR 0x0A],
          ''{"type":"message","message":{"role":"user","content":"hi"}}''])]\<close>
  let ?ev = "JObj [(''type'', JStr ''conversation''), (''role'', JStr ''user''),
                (''content'', JStr ''hi''), (''timestamp'', JStr ''unknown''),
                (''session'', JStr ''s1''), (''message_index'', JInt 2),
                (''migrated_from'', JStr ''openclaw'')]"
  have run: "migrate_conversations json_loads no_repr (Some ?entries) =
     ([Print (FoundSessions 1), OpenSession ''s1.jsonl'', Write Events ''openclaw_s1_2.json'' ?ev], Inr 1)"
    by code_simp
  then have "Write Events ''openclaw_s1_2.json'' ?ev
      \<in> set (fst (migrate_conversations json_loads no_repr (Some ?entries)))"
    by simp
  from message_index_is_line_position[OF this] obtain name lines i msg where
    "(name, lines) \<in> set (active_sessions ?entries)" "i < length lines"
    "''openclaw_s1_2.json'' = ''openclaw_'' @ stem name @ ''_'' @ str_nat i @ ''.json''"
    "json_loads (lines ! i) = Some (JObj msg)"
    by (elim exE conjE)
  then have ex: "\<exists>name lines i.
         (name, lines) \<in> set (active_sessions ?entries)
       \<and> i < length lines
       \<and> ''openclaw_s1_2.json'' = ''openclaw_'' @ stem name @ ''_'' @ str_nat i @ ''.json''
       \<and> json_loads (lines ! i) \<noteq> None"
    by (intro exI[of _ name] exI[of _ lines] exI[of _ i]) simp
  from run ex show ?thesis by (rule conjI)
qed

subsection \<open>The session files that are read\<close>

text \<open>
  C7. The conversation pass opens session files in directory order from the entries whose
  name ends with \<^verbatim>\<open>.jsonl\<close> and does not contain \<^verbatim>\<open>.deleted.\<close>: the files it opened are a
  prefix of that list, and the whole list when the pass returns (an exception ends the
  pass at the file that raised it). It never opens a file whose name contains
  \<^verbatim>\<open>.deleted.\<close> or does not end with \<^verbatim>\<open>.jsonl\<close>.
\<close>

theorem only_active_jsonl_sessions_are_read:
  "prefix (opened (fst (migrate_conversations loads repr (Some entries))))
          (map fst (filter (\<lambda>f. suffix ''.jsonl'' (fst f) \<and> \<not> sublist ''.deleted.'' (fst f)) entries))
   \<and> ((\<exists>n. snd (migrate_conversations loads repr (Some entries)) = Inr n) \<longrightarrow>
        opened (fst (migrate_conversations loads repr (Some entries))) =
          map fst (filter (\<lambda>f. suffix ''.jsonl'' (fst f) \<and> \<not> sublist ''.deleted.'' (fst f)) entries))
   \<and> (\<forall>name \<in> set (opened (fst (migrate_conversations loads repr (Some entries)))).
        \<not> sublist ''.deleted.'' name \<and> suffix ''.jsonl'' name \<and> name \<in> fst ` set entries)"
proof -
  let ?sessions = "filter (\<lambda>f. suffix ''.jsonl'' (fst f) \<and> \<not> sublist ''.deleted.'' (fst f)) entries"
  let ?run = "migrate_conversations loads repr (Some entries)"
  have o: "opened (fst ?run) = opened (fst (sessions_loop loads repr ?sessions 0))"
    by (simp add: migrate_conversations_Some active_sessions_filter)
  have r: "snd ?run = snd (sessions_loop loads repr ?sessions 0)"
    by (simp add: migrate_conversations_Some active_sessions_filter)
  from sessions_loop_opened[of loads repr ?sessions 0] o r
  have p: "prefix (opened (fst ?run)) (map fst ?sessions)"
    and q: "(\<exists>n. snd ?run = Inr n) \<longrightarrow> opened (fst ?run) = map fst ?sessions"
    by simp_all
  from p have "set (opened (fst ?run)) \<subseteq> set (map fst ?sessions)"
    by (rule set_mono_prefix)
  then have s: "\<forall>name \<in> set (opened (fst ?run)).
        \<not> sublist ''.deleted.'' name \<and> suffix ''.jsonl'' name \<and> name \<in> fst ` set entries"
    by auto
  from p q s show ?thesis by blast
qed

text \<open>
  A directory with one active session and three other files, each holding a line that
  would end the run if it were read.
\<close>

theorem only_active_jsonl_sessions_are_read_witness:
  \<open>migrate_conversations json_loads no_repr
      (Some [(''a.jsonl'', [''{"type":"message","message":{"role":"user","content":"hi"}}'']),
             (''b.deleted.jsonl'', [''{"type":"message","message":"role content"}'']),
             (''notes.txt'', [''{"type":"message","message":"role content"}'']),
             (''c.jsonl.deleted.3'', [''{"type":"message","message":"role content"}''])]) =
     ([Print (FoundSessions 1), OpenSession ''a.jsonl'',
       Write Events ''openclaw_a_0.json''
         (JObj [(''type'', JStr ''conversation''), (''role'', JStr ''user''),
                (''content'', JStr ''hi''), (''timestamp'', JStr ''unknown''),
                (''session'', JStr ''a''), (''message_index'', JInt 0),
                (''migrated_from'', JStr ''openclaw'')])],
      Inr 1)
   \<and> opened (fst (migrate_conversations json_loads no_repr
      (Some [(''a.jsonl'', [''{"type":"message","message":{"role":"user","content":"hi"}}'']),
             (''b.deleted.jsonl'', [''{"type":"message","message":"role content"}'']),
             (''notes.txt'', [''{"type":"message","message":"role content"}'']),
             (''c.jsonl.deleted.3'', [''{"type":"message","message":"role content"}''])]))) =
       map fst (filter (\<lambda>f. suffix ''.jsonl'' (fst f) \<and> \<not> sublist ''.deleted.'' (fst f))
            [(''a.jsonl'', [''{"type":"message","message":{"role":"user","content":"hi"}}'']),
             (''b.deleted.jsonl'', [''{"type":"message","message":"role content"}'']),
             (''notes.txt'', [''{"type":"message","message":"role content"}'']),
             (''c.jsonl.deleted.3'', [''{"type":"message","message":"role content"}''])])\<close>
proof -
  let ?entries = \<open>[(''a.jsonl'', [''{"type":"message","message":{"role":"user","content":"hi"}}'']),
             (''b.deleted.jsonl'', [''{"type":"message","message":"role content"}'']),
             (''notes.txt'', [''{"type":"message","message":"role content"}'']),
             (''c.jsonl.deleted.3'', [''{"type":"message","message":"role content"}''])]\<close>
  have run: "migrate_conversations json_loads no_repr (Some ?entries) =
     ([Print (FoundSessions 1), OpenSession ''a.jsonl'',
       Write Events ''openclaw_a_0.json''
         (JObj [(''type'', JStr ''conversation''), (''role'', JStr ''user''),
                (''content'', JStr ''hi''), (''timestamp'', JStr ''unknown''),
                (''session'', JStr ''a''), (''message_index'', JInt 0),
                (''migrated_from'', JStr ''openclaw'')])],
      Inr 1)"
    by code_simp
  then have "\<exists>n. snd (migrate_conversations json_loads no_repr (Some ?entries)) = Inr n"
    by simp
  with only_active_jsonl_sessions_are_read[of json_loads no_repr ?entries]
  have op: "opened (fst (migrate_conversations json_loads no_repr (Some ?entries))) =
       map fst (filter (\<lambda>f. suffix ''.jsonl'' (fst f) \<and> \<not> sublist ''.deleted.'' (fst f)) ?entries)"
    by (elim conjE impE)
  from run op show ?thesis by (rule conjI)
qed

subsection \<open>The chunk loop\<close>

lemma chunk_loop_trace:
  "chunk_loop loads repr rows migrated =
     (List.map_filter (migrate_row loads repr) rows,
      migrated + length (List.map_filter (migrate_row loads repr) rows))"
proof (induction rows arbitrary: migrated)
  case Nil
  then show ?case by (simp add: List.map_filter_simps)
next
  case (Cons row rows)
  then show ?case
    by (cases "migrate_row loads repr row") (simp_all add: List.map_filter_simps)
qed


lemma migrate_code_chunks_Chunks:
  "migrate_code_chunks loads repr (Chunks rows) =
     (Print (FoundChunks (length rows)) # List.map_filter (migrate_row loads repr) rows,
      Inr (length (List.map_filter (migrate_row loads repr) rows)))"
  by (simp add: migrate_code_chunks_def chunk_loop_trace)

text \<open>
  A row is written exactly when the value loaded from its embedding column is true in
  Python's sense; a NULL, a number, an empty text, a text that does not parse and a text
  that parses to an empty list are skipped, and the loop goes on.
\<close>

lemma migrate_row_written_iff:
  "migrate_row loads repr row \<noteq> None \<longleftrightarrow> truthy (load_embedding loads (embedding row))"
  by (simp add: migrate_row_def Let_def)

lemma migrate_row_skips:
  "embedding row = SNull \<Longrightarrow> migrate_row loads repr row = None"
  "embedding row = SText s \<Longrightarrow> loads s = None \<Longrightarrow> migrate_row loads repr row = None"
  "embedding row = SText s \<Longrightarrow> loads s = Some (JArr []) \<Longrightarrow> migrate_row loads repr row = None"
  "embedding row = SText [] \<Longrightarrow> migrate_row loads repr row = None"
  "embedding row = SInt i \<Longrightarrow> migrate_row loads repr row = None"
  "embedding row = SReal x \<Longrightarrow> migrate_row loads repr row = None"
  by (simp_all add: migrate_row_def Let_def)

lemma migrate_row_Write:
  "migrate_row loads repr row = Some w \<Longrightarrow> \<exists>f v. w = Write Vector f v"
  by (auto simp: migrate_row_def Let_def split: if_splits)

subsection \<open>Chunks with an embedding\<close>



subsection \<open>An embedding that is not a list\<close>

text \<open>
  C1. The claim is that a chunk file is written if and only if the embedding deserializes
  to a non-empty sequence. The loop tests the truth value of the deserialized value
  (\<open>migrate_row_written_iff\<close>), which a number other than zero has too: for a row whose
  embedding column holds the text \<^verbatim>\<open>1\<close>, \<^verbatim>\<open>json.loads\<close> returns the integer 1 and the pass
  writes the file, with \<^verbatim>\<open>"embedding": 1\<close>, and counts the row.
\<close>

theorem scalar_embedding_is_written:
  \<open>json_loads ''1'' = Some (JInt 1)
   \<and> migrate_code_chunks json_loads repr
        (Chunks [\<lparr>chunk_id = SText ''c1'', path = SText ''src/a.py'', source = SText ''memory'',
            start_line = SInt 1, end_line = SInt 9, hash_val = SText ''h1'', model = SText ''m'',
            text_val = SText ''x = 1'', embedding = SText ''1'', updated_at = SInt 1700000000\<rparr>]) =
       ([Print (FoundChunks 1),
         Write Vector ''c1.json''
           (JObj [(''id'', JStr ''c1''), (''content'', JStr ''x = 1''),
            (''metadata'', JObj [(''source_file'', JStr ''src/a.py''), (''start_line'', JInt 1),
               (''end_line'', JInt 9), (''hash'', JStr ''h1''), (''model'', JStr ''m''),
               (''source'', JStr ''memory''), (''migrated_from'', JStr ''openclaw''),
               (''original_timestamp'', JInt 1700000000)]),
            (''embedding'', JInt 1),
            (''timestamp'', JInt 1700000000)])],
        Inr 1)\<close>
  by code_simp

subsection \<open>The destination tree after a run\<close>

lemma writes_to_append: "writes_to d (es @ es') = writes_to d es @ writes_to d es'"
  by (induction d es rule: writes_to.induct) simp_all

lemma writes_to_Print: "writes_to d (map Print ms) = []"
  by (induction ms) simp_all

lemma apply_effects_Cons: "apply_effects (e # es) fs = apply_effects es (apply_effect e fs)"
  by (simp add: apply_effects_def)

lemma apply_effects_lookup:
  "apply_effects es fs (d, name) =
     (case map_of (rev (writes_to d es)) name of Some v \<Rightarrow> Some v | None \<Rightarrow> fs (d, name))"
proof (induction es arbitrary: fs)
  case Nil
  then show ?case by (simp add: apply_effects_def)
next
  case (Cons e es)
  show ?case
  proof (cases e)
    case (Write d' name' v)
    then show ?thesis
      by (auto simp: apply_effects_Cons Cons.IH map_add_def split: option.splits)
  qed (simp_all add: apply_effects_Cons Cons.IH)
qed

lemma apply_effects_same_writes:
  assumes "writes_to d es' = writes_to d es"
  shows "apply_effects es' (apply_effects es fs) (d, name) = apply_effects es fs (d, name)"
  by (simp add: apply_effects_lookup assms split: option.splits)

lemma apply_effects_twice: "apply_effects es (apply_effects es fs) = apply_effects es fs"
proof
  fix k :: "dest_dir \<times> string"
  obtain d name where "k = (d, name)" by (cases k)
  then show "apply_effects es (apply_effects es fs) k = apply_effects es fs k"
    by (simp add: apply_effects_same_writes)
qed

subsection \<open>Where each pass writes\<close>

lemma writes_to_map_filter_migrate_row:
  "d \<noteq> Vector \<Longrightarrow> writes_to d (List.map_filter (migrate_row loads repr) rows) = []"
proof (induction rows)
  case Nil
  then show ?case by (simp add: List.map_filter_simps)
next
  case (Cons row rows)
  then show ?case
    by (cases "migrate_row loads repr row")
       (auto simp: List.map_filter_simps dest: migrate_row_Write)
qed

lemma writes_to_migrate_code_chunks:
  "d \<noteq> Vector \<Longrightarrow> writes_to d (fst (migrate_code_chunks loads repr db)) = []"
  by (cases db) (simp_all add: migrate_code_chunks_Chunks writes_to_map_filter_migrate_row,
      simp_all add: migrate_code_chunks_def)

lemma writes_to_session_loop:
  "d \<noteq> Events \<Longrightarrow> writes_to d (fst (session_loop loads repr session_id idx lines total_messages)) = []"
proof (induction lines arbitrary: idx total_messages)
  case Nil
  then show ?case by simp
next
  case (Cons line lines)
  show ?case
  proof (cases "process_line loads repr session_id idx line")
    case (Inl e)
    then show ?thesis by simp
  next
    case (Inr out)
    show ?thesis
    proof (cases out)
      case None
      with Inr Cons show ?thesis by simp
    next
      case (Some w)
      from process_line_SomeD[OF Inr[unfolded Some]] obtain f ev where "w = Write Events f ev"
        by blast
      with Inr Some Cons.prems Cons.IH[of "idx + 1" "total_messages + 1"] show ?thesis
        by (simp add: case_prod_beta)
    qed
  qed
qed

lemma writes_to_sessions_loop:
  "d \<noteq> Events \<Longrightarrow> writes_to d (fst (sessions_loop loads repr sessions total_messages)) = []"
proof (induction sessions arbitrary: total_messages)
  case Nil
  then show ?case by simp
next
  case (Cons session_file sessions)
  then show ?case
    by (auto simp: writes_to_append writes_to_session_loop case_prod_beta split: prod.splits sum.splits)
qed

lemma writes_to_migrate_conversations:
  "d \<noteq> Events \<Longrightarrow> writes_to d (fst (migrate_conversations loads repr sessions_path)) = []"
  by (cases sessions_path)
     (simp_all add: migrate_conversations_Some writes_to_sessions_loop, simp add: migrate_conversations_def)

lemma writes_to_extract_personality:
  "writes_to d (fst (extract_personality loads now config_path)) =
     (case config_path of
        None \<Rightarrow> []
      | Some content \<Rightarrow>
          (case loads content of
             None \<Rightarrow> []
           | Some config \<Rightarrow>
               if d = Memory then [(''openclaw_personality.json'', personality now config)] else []))"
  by (simp add: extract_personality_def split: option.splits)

lemma fst_and_then:
  "fst (and_then r k) = fst r @ (case snd r of Inl e \<Rightarrow> [] | Inr x \<Rightarrow> fst (k x))"
  by (simp add: and_then_def split: sum.splits)

lemma snd_and_then:
  "snd (and_then r k) = (case snd r of Inl e \<Rightarrow> Inl e | Inr x \<Rightarrow> snd (k x))"
  by (simp add: and_then_def split: sum.splits)

lemma writes_to_main:
  "writes_to d (fst (main loads repr now src)) =
     writes_to d (fst (migrate_code_chunks loads repr (db_path src)))
     @ (case snd (migrate_code_chunks loads repr (db_path src)) of
          Inl e \<Rightarrow> []
        | Inr migrated_chunks \<Rightarrow>
            writes_to d (fst (migrate_conversations loads repr (sessions_dir src)))
            @ (case snd (migrate_conversations loads repr (sessions_dir src)) of
                 Inl e \<Rightarrow> []
               | Inr migrated_messages \<Rightarrow>
                   writes_to d (fst (extract_personality loads now (config_file src)))))"
  by (simp add: main_def fst_and_then snd_and_then writes_to_append prints_def writes_to_Print
      split: sum.splits)

lemma snd_main:
  "snd (main loads repr now src) =
     (case snd (migrate_code_chunks loads repr (db_path src)) of
        Inl e \<Rightarrow> Inl e
      | Inr migrated_chunks \<Rightarrow>
          (case snd (migrate_conversations loads repr (sessions_dir src)) of
             Inl e \<Rightarrow> Inl e
           | Inr migrated_messages \<Rightarrow>
               (case snd (extract_personality loads now (config_file src)) of
                  Inl e \<Rightarrow> Inl e
                | Inr u \<Rightarrow> Inr ())))"
  by (simp add: main_def snd_and_then prints_def split: sum.splits)

lemma writes_to_main_same:
  "d \<noteq> Memory \<Longrightarrow>
     writes_to d (fst (main loads repr now' src)) = writes_to d (fst (main loads repr now src))"
  by (simp add: writes_to_main writes_to_extract_personality split: sum.splits option.splits)

lemma writes_to_main_Memory:
  "writes_to Memory (fst (main loads repr now src)) =
     (case snd (migrate_code_chunks loads repr (db_path src)) of
        Inl e \<Rightarrow> []
      | Inr migrated_chunks \<Rightarrow>
          (case snd (migrate_conversations loads repr (sessions_dir src)) of
             Inl e \<Rightarrow> []
           | Inr migrated_messages \<Rightarrow>
               writes_to Memory (fst (extract_personality loads now (config_file src)))))"
  by (simp add: writes_to_main writes_to_migrate_code_chunks writes_to_migrate_conversations
      split: sum.splits)

subsection \<open>A configuration file that does not parse\<close>

text \<open>
  C8. When the configuration file exists and \<^verbatim>\<open>json.load\<close> raises on its content, the
  personality pass raises that error without writing anything; nothing catches it. The
  whole run then writes no file into the memory root (the personality file is the only
  one ever written there) and the process exits with status 1. When the two earlier
  passes returned, the exception that ends the run is this parse error.
\<close>

theorem malformed_config_is_fatal:
  assumes "config_file src = Some content" and "loads content = None"
  shows "extract_personality loads now (config_file src) = ([], Inl JSONDecodeError)
       \<and> writes_to Memory (fst (main loads repr now src)) = []
       \<and> exit_status (main loads repr now src) = 1
       \<and> ((\<exists>a. snd (migrate_code_chunks loads repr (db_path src)) = Inr a)
            \<and> (\<exists>b. snd (migrate_conversations loads repr (sessions_dir src)) = Inr b)
          \<longrightarrow> snd (main loads repr now src) = Inl JSONDecodeError)"
proof -
  from assms have p: "extract_personality loads now (config_file src) = ([], Inl JSONDecodeError)"
    by (simp add: extract_personality_def)
  then have w: "writes_to Memory (fst (main loads repr now src)) = []"
    by (simp add: writes_to_main_Memory split: sum.splits)
  from p have s: "snd (main loads repr now src) =
     (case snd (migrate_code_chunks loads repr (db_path src)) of
        Inl e \<Rightarrow> Inl e
      | Inr migrated_chunks \<Rightarrow>
          (case snd (migrate_conversations loads repr (sessions_dir src)) of
             Inl e \<Rightarrow> Inl e
           | Inr migrated_messages \<Rightarrow> Inl JSONDecodeError))"
    by (simp add: snd_main split: sum.splits)
  then have x: "exit_status (main loads repr now src) = 1"
    by (simp add: exit_status_def split: sum.splits)
  from s have f: "(\<exists>a. snd (migrate_code_chunks loads repr (db_path src)) = Inr a)
            \<and> (\<exists>b. snd (migrate_conversations loads repr (sessions_dir src)) = Inr b)
          \<longrightarrow> snd (main loads repr now src) = Inl JSONDecodeError"
    by auto
  from p w x f show ?thesis by blast
qed

text \<open>A configuration file cut off after its first key.\<close>

theorem malformed_config_is_fatal_witness:
  \<open>json_loads ''{"name": '' = None
   \<and> main json_loads no_repr ''2026-01-01T00:00:00''
        \<lparr>db_path = NoDatabase, sessions_dir = None, config_file = Some ''{"name": ''\<rparr> =
       ([Print Banner, Mkdir Vector, Mkdir Events, Mkdir Graph, Print Step1,
         Print WarnNoDatabase, Print (MigratedChunks 0), Print Step2,
         Print WarnNoSessions, Print (MigratedMessages 0), Print Step3],
        Inl JSONDecodeError)
   \<and> exit_status (main json_loads no_repr ''2026-01-01T00:00:00''
        \<lparr>db_path = NoDatabase, sessions_dir = None, config_file = Some ''{"name": ''\<rparr>) = 1\<close>
proof -
  let ?src = \<open>\<lparr>db_path = NoDatabase, sessions_dir = None, config_file = Some ''{"name": ''\<rparr>\<close>
  have l: \<open>json_loads ''{"name": '' = None\<close>
    by code_simp
  have c: \<open>config_file ?src = Some ''{"name": ''\<close>
    by simp
  have run: "main json_loads no_repr ''2026-01-01T00:00:00'' ?src =
       ([Print Banner, Mkdir Vector, Mkdir Events, Mkdir Graph, Print Step1,
         Print WarnNoDatabase, Print (MigratedChunks 0), Print Step2,
         Print WarnNoSessions, Print (MigratedMessages 0), Print Step3],
        Inl JSONDecodeError)"
    by code_simp
  from malformed_config_is_fatal[where loads = json_loads and now = "''2026-01-01T00:00:00''"
      and repr = no_repr, OF c l]
  have "exit_status (main json_loads no_repr ''2026-01-01T00:00:00'' ?src) = 1"
    by (elim conjE)
  with l run show ?thesis by (intro conjI)
qed

subsection \<open>Running twice\<close>

text \<open>
  C5. The traces of the chunk pass and of the conversation pass are functions of the
  sources alone, so replaying either pass on the tree it produced leaves every file as
  it was. For two whole runs over the same sources, at the times \<open>now1\<close> and \<open>now2\<close>:
  after the second run every file of the vector and events directories has the content
  it had after the first; a file of the memory root is unchanged too, unless it is the
  personality file, written by both runs with the same configuration and each run's own
  time. Two personality records of one configuration are equal once \<^verbatim>\<open>migrated_at\<close> is
  removed. (A file's bytes are \<^verbatim>\<open>json.dump\<close> of its content, so equal contents are equal
  bytes.)
\<close>

theorem rerun_writes_the_same_files:
  "apply_effects (fst (migrate_code_chunks loads repr db))
       (apply_effects (fst (migrate_code_chunks loads repr db)) fs) =
     apply_effects (fst (migrate_code_chunks loads repr db)) fs
   \<and> apply_effects (fst (migrate_conversations loads repr sessions_path))
       (apply_effects (fst (migrate_conversations loads repr sessions_path)) fs) =
     apply_effects (fst (migrate_conversations loads repr sessions_path)) fs
   \<and> apply_effects (fst (main loads repr now2 src))
       (apply_effects (fst (main loads repr now1 src)) fs) (Vector, name) =
     apply_effects (fst (main loads repr now1 src)) fs (Vector, name)
   \<and> apply_effects (fst (main loads repr now2 src))
       (apply_effects (fst (main loads repr now1 src)) fs) (Events, name) =
     apply_effects (fst (main loads repr now1 src)) fs (Events, name)
   \<and> (apply_effects (fst (main loads repr now2 src))
         (apply_effects (fst (main loads repr now1 src)) fs) (Memory, name) =
       apply_effects (fst (main loads repr now1 src)) fs (Memory, name)
      \<or> (name = ''openclaw_personality.json''
          \<and> (\<exists>config.
                apply_effects (fst (main loads repr now1 src)) fs (Memory, name) =
                  Some (personality now1 config)
              \<and> apply_effects (fst (main loads repr now2 src))
                  (apply_effects (fst (main loads repr now1 src)) fs) (Memory, name) =
                  Some (personality now2 config))))
   \<and> remove_field ''migrated_at'' (personality now1 config) =
     remove_field ''migrated_at'' (personality now2 config)"
proof -
  let ?fs1 = "apply_effects (fst (main loads repr now1 src)) fs"
  let ?fs2 = "apply_effects (fst (main loads repr now2 src)) ?fs1"
  have v: "?fs2 (Vector, name) = ?fs1 (Vector, name)"
    by (rule apply_effects_same_writes) (simp add: writes_to_main_same)
  have e: "?fs2 (Events, name) = ?fs1 (Events, name)"
    by (rule apply_effects_same_writes) (simp add: writes_to_main_same)
  have m: "?fs2 (Memory, name) = ?fs1 (Memory, name)
      \<or> (name = ''openclaw_personality.json''
          \<and> (\<exists>config. ?fs1 (Memory, name) = Some (personality now1 config)
                     \<and> ?fs2 (Memory, name) = Some (personality now2 config)))"
    by (auto simp: apply_effects_lookup writes_to_main_Memory writes_to_extract_personality
        split: sum.splits option.splits)
  have r: "remove_field ''migrated_at'' (personality now1 config) =
     remove_field ''migrated_at'' (personality now2 config)"
    by (simp add: personality_def)
  from v e m r show ?thesis
    by (simp only: apply_effects_twice simp_thms)
qed

text \<open>Two runs, a day apart, over one chunk, one session and a configuration.\<close>

theorem rerun_writes_the_same_files_witness:
  \<open>apply_effects (fst (main json_loads no_repr ''2026-01-01T00:00:00''
         \<lparr>db_path = Chunks [\<lparr>chunk_id = SText ''c2'', path = SText ''src/a.py'', source = SText ''memory'',
            start_line = SInt 10, end_line = SInt 20, hash_val = SText ''h2'', model = SText ''m'',
            text_val = SText ''y = 2'', embedding = SText ''[1]'', updated_at = SInt 1700000001\<rparr>],
          sessions_dir = Some [(''s1.jsonl'', [''{"type":"message","message":{"role":"user","content":"hi"}}''])],
          config_file = Some ''{"name": "claw"}''\<rparr>))
       (\<lambda>k. None) (Memory, ''openclaw_personality.json'') =
     Some (personality ''2026-01-01T00:00:00'' (JObj [(''name'', JStr ''claw'')]))
   \<and> apply_effects (fst (main json_loads no_repr ''2026-01-02T00:00:00''
         \<lparr>db_path = Chunks [\<lparr>chunk_id = SText ''c2'', path = SText ''src/a.py'', source = SText ''memory'',
            start_line = SInt 10, end_line = SInt 20, hash_val = SText ''h2'', model = SText ''m'',
            text_val = SText ''y = 2'', embedding = SText ''[1]'', updated_at = SInt 1700000001\<rparr>],
          sessions_dir = Some [(''s1.jsonl'', [''{"type":"message","message":{"role":"user","content":"hi"}}''])],
          config_file = Some ''{"name": "claw"}''\<rparr>))
       (apply_effects (fst (main json_loads no_repr ''2026-01-01T00:00:00''
         \<lparr>db_path = Chunks [\<lparr>chunk_id = SText ''c2'', path = SText ''src/a.py'', source = SText ''memory'',
            start_line = SInt 10, end_line = SInt 20, hash_val = SText ''h2'', model = SText ''m'',
            text_val = SText ''y = 2'', embedding = SText ''[1]'', updated_at = SInt 1700000001\<rparr>],
          sessions_dir = Some [(''s1.jsonl'', [''{"type":"message","message":{"role":"user","content":"hi"}}''])],
          config_file = Some ''{"name": "claw"}''\<rparr>))
       (\<lambda>k. None)) (Vector, ''c2.json'') =
     apply_effects (fst (main json_loads no_repr ''2026-01-01T00:00:00''
         \<lparr>db_path = Chunks [\<lparr>chunk_id = SText ''c2'', path = SText ''src/a.py'', source = SText ''memory'',
            start_line = SInt 10, end_line = SInt 20, hash_val = SText ''h2'', model = SText ''m'',
            text_val = SText ''y = 2'', embedding = SText ''[1]'', updated_at = SInt 1700000001\<rparr>],
          sessions_dir = Some [(''s1.jsonl'', [''{"type":"message","message":{"role":"user","content":"hi"}}''])],
          config_file = Some ''{"name": "claw"}''\<rparr>))
       (\<lambda>k. None) (Vector, ''c2.json'')
   \<and> apply_effects (fst (main json_loads no_repr ''2026-01-01T00:00:00''
         \<lparr>db_path = Chunks [\<lparr>chunk_id = SText ''c2'', path = SText ''src/a.py'', source = SText ''memory'',
            start_line = SInt 10, end_line = SInt 20, hash_val = SText ''h2'', model = SText ''m'',
            text_val = SText ''y = 2'', embedding = SText ''[1]'', updated_at = SInt 1700000001\<rparr>],
          sessions_dir = Some [(''s1.jsonl'', [''{"type":"message","message":{"role":"user","content":"hi"}}''])],
          config_file = Some ''{"name": "claw"}''\<rparr>))
       (\<lambda>k. None) (Vector, ''c2.json'') \<noteq> None\<close>
proof -
  let ?src = \<open>\<lparr>db_path = Chunks [\<lparr>chunk_id = SText ''c2'', path = SText ''src/a.py'', source = SText ''memory'',
            start_line = SInt 10, end_line = SInt 20, hash_val = SText ''h2'', model = SText ''m'',
            text_val = SText ''y = 2'', embedding = SText ''[1]'', updated_at = SInt 1700000001\<rparr>],
          sessions_dir = Some [(''s1.jsonl'', [''{"type":"message","message":{"role":"user","content":"hi"}}''])],
          config_file = Some ''{"name": "claw"}''\<rparr>\<close>
  have a: "apply_effects (fst (main json_loads no_repr ''2026-01-01T00:00:00'' ?src))
       (\<lambda>k. None) (Memory, ''openclaw_personality.json'') =
     Some (personality ''2026-01-01T00:00:00'' (JObj [(''name'', JStr ''claw'')]))"
    by code_simp
  have c: "apply_effects (fst (main json_loads no_repr ''2026-01-01T00:00:00'' ?src))
       (\<lambda>k. None) (Vector, ''c2.json'') \<noteq> None"
    by code_simp
  from rerun_writes_the_same_files[where loads = json_loads and repr = no_repr and src = ?src
      and ?now1.0 = "''2026-01-01T00:00:00''" and ?now2.0 = "''2026-01-02T00:00:00''"
      and fs = "\<lambda>k. None" and name = "''c2.json''",
      THEN conjunct2, THEN conjunct2, THEN conjunct1]
  have b: "apply_effects (fst (main json_loads no_repr ''2026-01-02T00:00:00'' ?src))
       (apply_effects (fst (main json_loads no_repr ''2026-01-01T00:00:00'' ?src)) (\<lambda>k. None))
       (Vector, ''c2.json'') =
     apply_effects (fst (main json_loads no_repr ''2026-01-01T00:00:00'' ?src))
       (\<lambda>k. None) (Vector, ''c2.json'')"
    .
  from a b c show ?thesis by (intro conjI)
qed

subsection \<open>The text of a message\<close>






end
